theory Spec2Isabelle
  imports Main
begin

section \<open>Go standard-library helpers used by package proxy\<close>

text \<open>
  \<^verbatim>\<open>strings.IndexByte(s, c)\<close>: the index of the first \<open>c\<close> in \<open>s\<close>, or \<open>-1\<close>.
  \<^verbatim>\<open>strings.Index(s, ":")\<close> with a one-byte separator is the same function.
\<close>

fun IndexByte :: "string \<Rightarrow> char \<Rightarrow> int" where
  "IndexByte [] c = - 1"
| "IndexByte (x # xs) c =
     (if x = c then 0
      else (let i = IndexByte xs c in if i = - 1 then - 1 else i + 1))"

text \<open>Go slices of a string: \<^verbatim>\<open>s[i:]\<close> and \<^verbatim>\<open>s[:i]\<close>, for an index that is in range.\<close>

definition slice_from :: "string \<Rightarrow> int \<Rightarrow> string" where
  "slice_from s i = drop (nat i) s"

definition slice_to :: "string \<Rightarrow> int \<Rightarrow> string" where
  "slice_to s i = take (nat i) s"

text \<open>\<^verbatim>\<open>strconv.Itoa\<close>: the decimal digits of an integer.\<close>

fun digits :: "nat \<Rightarrow> string" where
  "digits n =
     (if n < 10 then [''0123456789'' ! n]
      else digits (n div 10) @ [''0123456789'' ! (n mod 10)])"

declare digits.simps [simp del]

definition Itoa :: "int \<Rightarrow> string" where
  "Itoa i = (if i < 0 then CHR ''-'' # digits (nat (- i)) else digits (nat i))"

text \<open>
  \<^verbatim>\<open>path.Join(elem...)\<close> of the Go standard library: the elements from the first
  non-empty one on are joined with slashes and the result is cleaned by
  \<^verbatim>\<open>path.Clean\<close>: empty and \<open>.\<close> elements are dropped, a \<open>..\<close> element removes the
  element before it (at the start of a path that is not rooted it stays, of a rooted one it is
  dropped), and the empty result is \<open>.\<close>.
\<close>

fun split_slash :: "string \<Rightarrow> string list" where
  "split_slash [] = [[]]"
| "split_slash (c # cs) =
     (if c = CHR ''/'' then [] # split_slash cs
      else (case split_slash cs of
              [] \<Rightarrow> [[c]]
            | e # es \<Rightarrow> (c # e) # es))"

fun join_slash :: "string list \<Rightarrow> string" where
  "join_slash [] = []"
| "join_slash [e] = e"
| "join_slash (e # es) = e @ CHR ''/'' # join_slash es"

text \<open>The elements kept so far are held in reverse, the last one first.\<close>

fun clean_elems :: "bool \<Rightarrow> string list \<Rightarrow> string list \<Rightarrow> string list" where
  "clean_elems rooted [] out = rev out"
| "clean_elems rooted (e # es) out =
     (if e = [] \<or> e = ''.'' then clean_elems rooted es out
      else if e = ''..'' then
        (case out of
           [] \<Rightarrow> if rooted then clean_elems rooted es [] else clean_elems rooted es [''..'']
         | t # ts \<Rightarrow> if t = ''..'' then clean_elems rooted es (''..'' # t # ts)
                     else clean_elems rooted es ts)
      else clean_elems rooted es (e # out))"

definition Clean :: "string \<Rightarrow> string" where
  "Clean p =
     (if p = [] then ''.''
      else (let rooted = (hd p = CHR ''/'');
                out = (if rooted then ''/'' else []) @ join_slash (clean_elems rooted (split_slash p) [])
            in if out = [] then ''.'' else out))"

fun Join :: "string list \<Rightarrow> string" where
  "Join [] = []"
| "Join (e # es) = (if e = [] then Join es else Clean (join_slash (e # es)))"

text \<open>
  Go errors. \<^verbatim>\<open>errors.New(s)\<close> carries its message; \<^verbatim>\<open>fmt.Errorf(format, a...)\<close> is
  kept as the format with its operands, an operand being a string or an error.
\<close>

datatype error = errors_New string | fmt_Errorf string "fmt_arg list"
  and fmt_arg = Str string | ErrorOf error

text \<open>The HTTP status codes the package writes.\<close>

definition StatusMovedPermanently :: nat where
  "StatusMovedPermanently = 301"

definition StatusNotFound :: nat where
  "StatusNotFound = 404"


section \<open>Configuration (the Configuration and HostConfig structs)\<close>

record HostConfig =
  Proxy :: string
  Host :: string

record SSL_RedirectHTTP =
  Enable :: bool
  Addr :: string

record SSL_Default =
  CertFile :: string
  KeyFile :: string

record SSL_Config =
  RedirectHTTP :: SSL_RedirectHTTP
  DisableLetsEncrypt :: bool
  Default :: SSL_Default

record Configuration =
  Prod :: bool
  Addr :: string
  LogLevel :: string
  StaticDir :: string
  Proxies :: "HostConfig list"
  SSL :: SSL_Config


section \<open>Addresses and listeners\<close>

definition DefaultSSLAddr :: string where
  "DefaultSSLAddr = '':443''"

definition DefaultServerHostname :: string where
  "DefaultServerHostname = ''0.0.0.0''"

definition DefaultServerPort :: int where
  "DefaultServerPort = 8080"

definition DefaultServerAddr :: string where
  "DefaultServerAddr = DefaultServerHostname @ '':'' @ Itoa DefaultServerPort"

definition errCertKeyMissing :: error where
  "errCertKeyMissing = errors_New ''You should provide certFile and keyFile for TLS/SSL''"

definition errParseTLS_Format :: "fmt_arg list \<Rightarrow> error" where
  "errParseTLS_Format a = fmt_Errorf ''Couldn't load TLS, certFile=%q, keyFile=%q. Trace: %s'' a"

text \<open>
  The process environment: \<^verbatim>\<open>os.Getenv\<close> gives the empty string for a variable that is
  not set.
\<close>

type_synonym Environ = "string \<rightharpoonup> string"

definition Getenv :: "Environ \<Rightarrow> string \<Rightarrow> string" where
  "Getenv env k = (case env k of None \<Rightarrow> [] | Some v \<Rightarrow> v)"

definition ParseHost :: "Environ \<Rightarrow> string \<Rightarrow> string" where
  "ParseHost env addr =
     (let a = (if addr = [] then
                 (if Getenv env ''ADDR'' \<noteq> [] then Getenv env ''ADDR''
                  else if Getenv env ''HOST'' \<noteq> [] then Getenv env ''HOST''
                  else if Getenv env ''HOSTNAME'' \<noteq> [] then
                    (if Getenv env ''PORT'' \<noteq> []
                     then Getenv env ''HOSTNAME'' @ '':'' @ Getenv env ''PORT''
                     else Getenv env ''HOSTNAME'')
                  else if Getenv env ''PORT'' \<noteq> [] then '':'' @ Getenv env ''PORT''
                  else DefaultServerAddr)
               else addr)
      in (let portIdx = IndexByte a CHR '':'' in
          if portIdx = 0 then
            (if slice_from a portIdx = '':https'' then DefaultServerHostname @ '':443''
             else DefaultServerHostname @ a)
          else a))"

text \<open>
  The rule for an address without a host segment, in the words of the specification: an
  address whose first character is a colon is prefixed with \<open>0.0.0.0\<close>, except
  \<open>:https\<close>, which becomes \<open>0.0.0.0:443\<close>; any other address is left as it is.
\<close>

definition spec_prefix_host :: "string \<Rightarrow> string" where
  "spec_prefix_host a =
     (if a = '':https'' then ''0.0.0.0:443''
      else if a \<noteq> [] \<and> hd a = CHR '':'' then ''0.0.0.0'' @ a
      else a)"

text \<open>
  What the listeners need from the operating system and the libraries: the environment,
  \<^verbatim>\<open>tls.LoadX509KeyPair\<close>, \<^verbatim>\<open>net.Listen\<close> and the cache file of the letsencrypt manager.
  \<open>'l\<close> is an open socket, \<open>'c\<close> a loaded certificate.
\<close>

record ('l, 'c) OS =
  Environ :: Environ
  LoadX509KeyPair :: "string \<Rightarrow> string \<Rightarrow> error + 'c"
  net_Listen :: "string \<Rightarrow> string \<Rightarrow> error + 'l"
  CacheFile :: "string \<Rightarrow> error option"

text \<open>
  The \<^verbatim>\<open>tls.Config\<close> values the package builds: one fixed certificate with
  \<^verbatim>\<open>PreferServerCipherSuites\<close>, or a \<^verbatim>\<open>GetCertificate\<close> callback of the letsencrypt manager
  (with its cache file) or of the autocert manager (accepting the terms of service, with its
  cache directory).
\<close>

datatype 'c tls_Config =
    Certificates "'c list" bool
  | GetCertificate_letsencrypt string
  | GetCertificate_autocert_AcceptTOS string

datatype ('l, 'c) Listener = TCPListener 'l | tls_NewListener 'l "'c tls_Config"

definition TCP4 :: "('l, 'c) OS \<Rightarrow> string \<Rightarrow> error + 'l" where
  "TCP4 os addr = net_Listen os ''tcp4'' (ParseHost (Environ os) addr)"

definition CERT :: "('l, 'c) OS \<Rightarrow> string \<Rightarrow> 'c \<Rightarrow> error + ('l, 'c) Listener" where
  "CERT os addr cert =
     (case TCP4 os addr of
        Inl err \<Rightarrow> Inl err
      | Inr ln \<Rightarrow> Inr (tls_NewListener ln (Certificates [cert] True)))"

definition TLS :: "('l, 'c) OS \<Rightarrow> string \<Rightarrow> string \<Rightarrow> string \<Rightarrow> error + ('l, 'c) Listener" where
  "TLS os addr certFile keyFile =
     (if certFile = [] \<or> keyFile = [] then Inl errCertKeyMissing
      else (case LoadX509KeyPair os certFile keyFile of
              Inl err \<Rightarrow> Inl (errParseTLS_Format [Str certFile, Str keyFile, ErrorOf err])
            | Inr cert \<Rightarrow> CERT os addr cert))"

definition LETSENCRYPT :: "('l, 'c) OS \<Rightarrow> string \<Rightarrow> error + ('l, 'c) Listener" where
  "LETSENCRYPT os addr0 =
     (let addr = (if IndexByte addr0 CHR '':'' = - 1 then addr0 @ DefaultSSLAddr else addr0) in
      case TCP4 os addr of
        Inl err \<Rightarrow> Inl err
      | Inr ln \<Rightarrow>
          (case CacheFile os ''./letsencrypt.cache'' of
             Some err \<Rightarrow> Inl err
           | None \<Rightarrow> Inr (tls_NewListener ln (GetCertificate_letsencrypt ''./letsencrypt.cache''))))"

definition LETSENCRYPTPROD :: "('l, 'c) OS \<Rightarrow> string \<Rightarrow> error + ('l, 'c) Listener" where
  "LETSENCRYPTPROD os addr0 =
     (let addr = (if IndexByte addr0 CHR '':'' = - 1 then addr0 @ DefaultSSLAddr else addr0) in
      case TCP4 os addr of
        Inl err \<Rightarrow> Inl err
      | Inr ln \<Rightarrow> Inr (tls_NewListener ln (GetCertificate_autocert_AcceptTOS ''./certcache'')))"


section \<open>The proxy (the Proxy struct, Setup, the root handler, AddHostHandler)\<close>

text \<open>
  The parts of an \<^verbatim>\<open>http.Request\<close> the package reads: the Host header, the path of the
  URL and the request URI (path and query as sent).
\<close>

record Request =
  Host :: string
  URL_Path :: string
  RequestURI :: string

datatype 'u ReverseProxy = NewSingleHostReverseProxy 'u

text \<open>
  The Proxy struct. A Go map is \<open>nil\<close> until it is made: \<open>None\<close> is the nil map, which
  a lookup reads as empty. The two servers and the exit channel belong to the running
  service and are not part of the dispatch state. \<open>'h\<close> is an \<^verbatim>\<open>http.Handler\<close>,
  \<open>'u\<close> a parsed URL.
\<close>

record ('h, 'u) Proxy =
  config :: Configuration
  handlers :: "(string \<rightharpoonup> 'h) option"
  proxies :: "(string \<rightharpoonup> 'u ReverseProxy) option"

definition map_index :: "('k \<rightharpoonup> 'v) option \<Rightarrow> 'k \<Rightarrow> 'v option" where
  "map_index m k = (case m of None \<Rightarrow> None | Some t \<Rightarrow> t k)"

text \<open>A call of the package logger: the level's method, the format and its operands.\<close>

datatype LogCall = Warn string "fmt_arg list" | Fatal string "fmt_arg list"

text \<open>
  The loop of Setup over \<^verbatim>\<open>config.Proxies\<close>, with the proxy table and the logger calls
  made so far. \<^verbatim>\<open>url.Parse\<close> is the parameter \<open>url_Parse\<close>.
\<close>

fun Setup_proxies ::
  "(string \<Rightarrow> error + 'u) \<Rightarrow> HostConfig list \<Rightarrow> (string \<rightharpoonup> 'u ReverseProxy) \<times> LogCall list
     \<Rightarrow> (string \<rightharpoonup> 'u ReverseProxy) \<times> LogCall list" where
  "Setup_proxies url_Parse [] (tbl, log) = (tbl, log)"
| "Setup_proxies url_Parse (proxy # rest) (tbl, log) =
     (case url_Parse (HostConfig.Host proxy) of
        Inr u \<Rightarrow>
          Setup_proxies url_Parse rest
            (tbl(HostConfig.Proxy proxy \<mapsto> NewSingleHostReverseProxy u), log)
      | Inl err \<Rightarrow>
          Setup_proxies url_Parse rest
            (tbl, log @ [Warn ''Could not parse Host: %s'' [ErrorOf err]]))"

text \<open>Setup gives the proxy, the error (always nil) and the logger calls it made.\<close>

definition Setup ::
  "(string \<Rightarrow> error + 'u) \<Rightarrow> Configuration \<Rightarrow> (('h, 'u) Proxy \<times> error option) \<times> LogCall list" where
  "Setup url_Parse cfg =
     (let (tbl, log) = Setup_proxies url_Parse (Proxies cfg) (Map.empty, []) in
      ((\<lparr>config = cfg, handlers = Some Map.empty, proxies = Some tbl\<rparr>, None), log))"

text \<open>
  What a handler does with a request: hand it to a local handler, hand it to a reverse
  proxy, call \<^verbatim>\<open>http.ServeFile\<close> with a file name, write a status code, or call
  \<^verbatim>\<open>http.Redirect\<close> with a URL and a status code.
\<close>

datatype ('h, 'u) Response =
    Handler_ServeHTTP 'h Request
  | ReverseProxy_ServeHTTP "'u ReverseProxy" Request
  | http_ServeFile Request string
  | WriteHeader nat
  | http_Redirect Request string nat

text \<open>
  The root handler that Setup installs; it reads the proxy at the time of the request. Its
  trace lines go to the logger and do not change the answer; they are left out.
\<close>

definition proxyHandler :: "('h, 'u) Proxy \<Rightarrow> Request \<Rightarrow> ('h, 'u) Response" where
  "proxyHandler gm req =
     (case map_index (handlers gm) (Request.Host req) of
        Some handler \<Rightarrow> Handler_ServeHTTP handler req
      | None \<Rightarrow>
          (case map_index (proxies gm) (Request.Host req) of
             Some proxy \<Rightarrow> ReverseProxy_ServeHTTP proxy req
           | None \<Rightarrow>
               if StaticDir (config gm) \<noteq> []
               then http_ServeFile req (Join [StaticDir (config gm), Request.Host req])
               else WriteHeader StatusNotFound))"

definition AddHostHandler :: "('h, 'u) Proxy \<Rightarrow> string \<Rightarrow> 'h \<Rightarrow> error + ('h, 'u) Proxy" where
  "AddHostHandler gm host handler =
     (if host = [] then Inl (fmt_Errorf ''The host cannot be empty'' [])
      else (case handlers gm of
              None \<Rightarrow> Inl (fmt_Errorf ''Setup() must be called'' [])
            | Some t \<Rightarrow> Inr (gm\<lparr>handlers := Some (t(host \<mapsto> handler))\<rparr>)))"


section \<open>Listen: the listener of the service and the redirect server\<close>

text \<open>The first part of Listen: the choice of the listener.\<close>

definition Listen_ln :: "('l, 'c) OS \<Rightarrow> ('h, 'u) Proxy \<Rightarrow> error + ('l, 'c) Listener" where
  "Listen_ln os gm =
     (let addr = ParseHost (Environ os) (Configuration.Addr (config gm));
          ssl = SSL (config gm) in
      if CertFile (Default ssl) \<noteq> [] \<and> KeyFile (Default ssl) \<noteq> []
      then TLS os addr (CertFile (Default ssl)) (KeyFile (Default ssl))
      else if \<not> DisableLetsEncrypt ssl then
        (if Prod (config gm) then LETSENCRYPTPROD os addr else LETSENCRYPT os addr)
      else (case TCP4 os addr of Inl err \<Rightarrow> Inl err | Inr ln \<Rightarrow> Inr (TCPListener ln)))"

text \<open>The port that the redirect handler appends to the host.\<close>

definition realSSLPort :: "Configuration \<Rightarrow> string" where
  "realSSLPort cfg =
     (let i = IndexByte (Configuration.Addr cfg) CHR '':'' in
      if i \<noteq> - 1 \<and> slice_from (Configuration.Addr cfg) (i + 1) \<noteq> ''443''
      then slice_from (Configuration.Addr cfg) (i + 1)
      else [])"

text \<open>The host of a request as the redirect handler reads it.\<close>

definition realHost :: "Request \<Rightarrow> string" where
  "realHost r =
     (let i = IndexByte (Request.Host r) CHR '':'' in
      if i \<noteq> - 1 then slice_to (Request.Host r) i else Request.Host r)"

text \<open>The handler of the redirect server, for the port that Listen computed.\<close>

definition redirect_handler :: "string \<Rightarrow> Request \<Rightarrow> ('h, 'u) Response" where
  "redirect_handler port r =
     (let redirectTo = ''https://'' @ realHost r @ port @ RequestURI r in
      http_Redirect r redirectTo StatusMovedPermanently)"

text \<open>
  Listen up to the call of \<^verbatim>\<open>Serve\<close>: a listener that could not be obtained ends the
  process through \<^verbatim>\<open>logger.Fatal\<close>; otherwise the service serves on the listener, with the
  redirect server (its address and the port its handler appends) when it is enabled.
\<close>

datatype ('l, 'c) Listening =
    os_Exit LogCall
  | Serve "('l, 'c) Listener" "(string \<times> string) option"

definition Listen :: "('l, 'c) OS \<Rightarrow> ('h, 'u) Proxy \<Rightarrow> ('l, 'c) Listening" where
  "Listen os gm =
     (case Listen_ln os gm of
        Inl err \<Rightarrow> os_Exit (Fatal ''Cannot get SSL listener: %s'' [ErrorOf err])
      | Inr ln \<Rightarrow>
          Serve ln
            (if Enable (RedirectHTTP (SSL (config gm)))
             then Some (SSL_RedirectHTTP.Addr (RedirectHTTP (SSL (config gm))),
                        realSSLPort (config gm))
             else None))"


section \<open>An example configuration\<close>

text \<open>
  \<^verbatim>\<open>url.Parse\<close> on the URLs of the examples: the Go library rejects a URL whose first
  character is a colon (\<open>missing protocol scheme\<close>) and accepts the absolute
  \<open>http://host:port\<close> URLs used here. The parsed URL is represented by its text.
\<close>

definition url_Parse_scheme :: "string \<Rightarrow> error + string" where
  "url_Parse_scheme rawurl =
     (if rawurl \<noteq> [] \<and> hd rawurl = CHR '':'' then Inl (errors_New ''missing protocol scheme'')
      else Inr rawurl)"

text \<open>
  A configuration with two host routes, a static root and the redirect server enabled, the
  proxy that Setup and one call of AddHostHandler build from it, and a request.
\<close>

definition example_config :: Configuration where
  "example_config =
     \<lparr>Prod = False, Addr = '':8443'', LogLevel = ''INFO'', StaticDir = ''www'',
      Proxies = [\<lparr>Proxy = ''a.com'', Host = ''http://127.0.0.1:9000''\<rparr>,
                 \<lparr>Proxy = ''b.com'', Host = ''http://127.0.0.1:9001''\<rparr>],
      SSL = \<lparr>RedirectHTTP = \<lparr>Enable = True, Addr = '':80''\<rparr>, DisableLetsEncrypt = False,
             Default = \<lparr>CertFile = [], KeyFile = []\<rparr>\<rparr>\<rparr>"

definition example_proxy :: "(nat, string) Proxy" where
  "example_proxy =
     \<lparr>config = example_config,
      handlers = Some [''a.com'' \<mapsto> 7],
      proxies = Some [''a.com'' \<mapsto> NewSingleHostReverseProxy ''http://127.0.0.1:9000'',
                      ''b.com'' \<mapsto> NewSingleHostReverseProxy ''http://127.0.0.1:9001'']\<rparr>"

definition example_request :: "string \<Rightarrow> Request" where
  "example_request host = \<lparr>Host = host, URL_Path = ''/path'', RequestURI = ''/path?x=1''\<rparr>"


text \<open>
  Three route tables on the example configuration: one with a route whose URL does not parse
  between two that do, one with two routes for the same host of which the later does not
  parse, and one with two well-formed routes for the same host.
\<close>

definition skipped_config :: Configuration where
  "skipped_config =
     example_config\<lparr>Proxies :=
       [\<lparr>Proxy = ''a.com'', Host = ''http://127.0.0.1:9000''\<rparr>,
        \<lparr>Proxy = ''bad.com'', Host = '':9002''\<rparr>,
        \<lparr>Proxy = ''b.com'', Host = ''http://127.0.0.1:9001''\<rparr>]\<rparr>"

definition duplicate_config :: Configuration where
  "duplicate_config =
     example_config\<lparr>Proxies :=
       [\<lparr>Proxy = ''a.com'', Host = ''http://127.0.0.1:9000''\<rparr>,
        \<lparr>Proxy = ''a.com'', Host = '':9001''\<rparr>]\<rparr>"

definition duplicate_config_ok :: Configuration where
  "duplicate_config_ok =
     example_config\<lparr>Proxies :=
       [\<lparr>Proxy = ''a.com'', Host = ''http://127.0.0.1:9000''\<rparr>,
        \<lparr>Proxy = ''b.com'', Host = ''http://127.0.0.1:9001''\<rparr>,
        \<lparr>Proxy = ''a.com'', Host = ''http://127.0.0.1:9002''\<rparr>]\<rparr>"


text \<open>
  An operating system for the examples: no environment variable is set, the key pair
  \<open>cert.pem\<close>, \<open>key.pem\<close> loads and no other does, every address can be listened on (the
  socket is named by network and address) and the cache file can be used. The proxies of the
  examples differ in the production flag, the certificate files and the flag that disables
  automatic certificates.
\<close>

definition example_os :: "(string \<times> string, nat) OS" where
  "example_os =
     \<lparr>Environ = Map.empty,
      LoadX509KeyPair = (\<lambda>certFile keyFile.
         if certFile = ''cert.pem'' \<and> keyFile = ''key.pem'' then Inr 1
         else Inl (errors_New ''open: no such file or directory'')),
      net_Listen = (\<lambda>network address. Inr (network, address)),
      CacheFile = (\<lambda>name. None)\<rparr>"

definition example_listen :: "bool \<Rightarrow> string \<Rightarrow> string \<Rightarrow> bool \<Rightarrow> (nat, string) Proxy" where
  "example_listen production certFile keyFile disable =
     example_proxy\<lparr>config := example_config
       \<lparr>Prod := production,
        SSL := \<lparr>RedirectHTTP = \<lparr>Enable = True, Addr = '':80''\<rparr>, DisableLetsEncrypt = disable,
                Default = \<lparr>CertFile = certFile, KeyFile = keyFile\<rparr>\<rparr>\<rparr>\<rparr>"


section \<open>Properties of the address normalisation\<close>

lemma digits_8080: "digits 8080 = ''8080''"
  by (simp add: digits.simps [of 8080] digits.simps [of 808] digits.simps [of 80] digits.simps [of 8])

lemma DefaultServerAddr_eq: "DefaultServerAddr = ''0.0.0.0:8080''"
  by (simp add: DefaultServerAddr_def DefaultServerHostname_def DefaultServerPort_def Itoa_def
      digits_8080)

lemma IndexByte_ge: "- 1 \<le> IndexByte s c"
  by (induction s) (auto simp: Let_def)

lemma IndexByte_absent: "IndexByte s c = - 1 \<longleftrightarrow> c \<notin> set s"
proof (induction s)
  case Nil
  show ?case by simp
next
  case (Cons x xs)
  have "- 1 \<le> IndexByte xs c" by (rule IndexByte_ge)
  with Cons show ?case by (auto simp: Let_def)
qed

lemma IndexByte_zero: "IndexByte s c = 0 \<longleftrightarrow> s \<noteq> [] \<and> hd s = c"
proof (cases s)
  case Nil
  then show ?thesis by simp
next
  case (Cons x xs)
  have "- 1 \<le> IndexByte xs c" by (rule IndexByte_ge)
  with Cons show ?thesis by (auto simp: Let_def)
qed

lemma IndexByte_append: "c \<notin> set h \<Longrightarrow> IndexByte (h @ c # p) c = int (length h)"
proof (induction h)
  case Nil
  show ?case by simp
next
  case (Cons x xs)
  then show ?case by (auto simp: Let_def)
qed

lemma colon_step:
  "(let portIdx = IndexByte a CHR '':'' in
    if portIdx = 0 then
      (if slice_from a portIdx = '':https'' then DefaultServerHostname @ '':443''
       else DefaultServerHostname @ a)
    else a) = spec_prefix_host a"
proof (cases "IndexByte a CHR '':'' = 0")
  case True
  then have "a \<noteq> []" "hd a = CHR '':''" by (simp_all add: IndexByte_zero)
  with True show ?thesis
    by (simp add: spec_prefix_host_def slice_from_def DefaultServerHostname_def)
next
  case False
  then have "a = [] \<or> hd a \<noteq> CHR '':''" by (simp add: IndexByte_zero)
  moreover have "a \<noteq> '':https''" using False by auto
  ultimately show ?thesis using False by (auto simp: spec_prefix_host_def)
qed

lemma ParseHost_prefix:
  "ParseHost env addr =
     spec_prefix_host
       (if addr = [] then
          (if Getenv env ''ADDR'' \<noteq> [] then Getenv env ''ADDR''
           else if Getenv env ''HOST'' \<noteq> [] then Getenv env ''HOST''
           else if Getenv env ''HOSTNAME'' \<noteq> [] then
             (if Getenv env ''PORT'' \<noteq> []
              then Getenv env ''HOSTNAME'' @ '':'' @ Getenv env ''PORT''
              else Getenv env ''HOSTNAME'')
           else if Getenv env ''PORT'' \<noteq> [] then '':'' @ Getenv env ''PORT''
           else ''0.0.0.0:8080'')
        else addr)"
proof -
  have "ParseHost env addr =
     spec_prefix_host
       (if addr = [] then
          (if Getenv env ''ADDR'' \<noteq> [] then Getenv env ''ADDR''
           else if Getenv env ''HOST'' \<noteq> [] then Getenv env ''HOST''
           else if Getenv env ''HOSTNAME'' \<noteq> [] then
             (if Getenv env ''PORT'' \<noteq> []
              then Getenv env ''HOSTNAME'' @ '':'' @ Getenv env ''PORT''
              else Getenv env ''HOSTNAME'')
           else if Getenv env ''PORT'' \<noteq> [] then '':'' @ Getenv env ''PORT''
           else DefaultServerAddr)
        else addr)"
    unfolding ParseHost_def Let_def [of _ "\<lambda>a. (let portIdx = IndexByte a CHR '':'' in _ a portIdx)"]
    unfolding colon_step ..
  then show ?thesis by (simp only: DefaultServerAddr_eq)
qed


lemma spec_prefix_host_fixed: "a \<noteq> [] \<Longrightarrow> hd a \<noteq> CHR '':'' \<Longrightarrow> spec_prefix_host a = a"
  by (auto simp: spec_prefix_host_def)

lemma spec_prefix_host_shape:
  "a \<noteq> [] \<Longrightarrow> spec_prefix_host a \<noteq> [] \<and> hd (spec_prefix_host a) \<noteq> CHR '':''"
  by (auto simp: spec_prefix_host_def)

lemma ParseHost_shape: "ParseHost env addr \<noteq> [] \<and> hd (ParseHost env addr) \<noteq> CHR '':''"
  unfolding ParseHost_prefix by (rule spec_prefix_host_shape) simp

lemma ParseHost_fixed: "a \<noteq> [] \<Longrightarrow> hd a \<noteq> CHR '':'' \<Longrightarrow> ParseHost env a = a"
  unfolding ParseHost_prefix by (simp add: spec_prefix_host_fixed)

lemma ParseHost_idem: "ParseHost env (ParseHost env addr) = ParseHost env addr"
  using ParseHost_shape [of env addr] by (simp add: ParseHost_fixed)

text \<open>
  Claim C4, as the code has it. The environment is consulted only for the empty address, in
  the order \<open>ADDR\<close>, \<open>HOST\<close>, \<open>HOSTNAME\<close> (with \<open>:PORT\<close> appended when \<open>PORT\<close>
  is set), \<open>PORT\<close> alone as \<open>:PORT\<close>, and last the default \<open>0.0.0.0:8080\<close>. The
  address given, or the one taken from the environment, then gets the host \<open>0.0.0.0\<close> in
  front when it starts with a colon, \<open>:https\<close> becoming \<open>0.0.0.0:443\<close>. An address
  that is not empty is never replaced from the environment, whether it has a colon or not.
\<close>

theorem ParseHost_normalises:
  "(addr \<noteq> [] \<longrightarrow> ParseHost env addr = spec_prefix_host addr)
   \<and> (Getenv env ''ADDR'' \<noteq> [] \<longrightarrow> ParseHost env [] = spec_prefix_host (Getenv env ''ADDR''))
   \<and> (Getenv env ''ADDR'' = [] \<and> Getenv env ''HOST'' \<noteq> [] \<longrightarrow>
        ParseHost env [] = spec_prefix_host (Getenv env ''HOST''))
   \<and> (Getenv env ''ADDR'' = [] \<and> Getenv env ''HOST'' = [] \<and> Getenv env ''HOSTNAME'' \<noteq> []
        \<and> Getenv env ''PORT'' \<noteq> [] \<longrightarrow>
        ParseHost env [] =
          spec_prefix_host (Getenv env ''HOSTNAME'' @ '':'' @ Getenv env ''PORT''))
   \<and> (Getenv env ''ADDR'' = [] \<and> Getenv env ''HOST'' = [] \<and> Getenv env ''HOSTNAME'' \<noteq> []
        \<and> Getenv env ''PORT'' = [] \<longrightarrow>
        ParseHost env [] = spec_prefix_host (Getenv env ''HOSTNAME''))
   \<and> (Getenv env ''ADDR'' = [] \<and> Getenv env ''HOST'' = [] \<and> Getenv env ''HOSTNAME'' = []
        \<and> Getenv env ''PORT'' \<noteq> [] \<longrightarrow>
        ParseHost env [] = spec_prefix_host ('':'' @ Getenv env ''PORT''))
   \<and> (Getenv env ''ADDR'' = [] \<and> Getenv env ''HOST'' = [] \<and> Getenv env ''HOSTNAME'' = []
        \<and> Getenv env ''PORT'' = [] \<longrightarrow>
        ParseHost env [] = ''0.0.0.0:8080'')"
proof -
  have "spec_prefix_host ''0.0.0.0:8080'' = ''0.0.0.0:8080''"
    by (simp add: spec_prefix_host_def)
  then show ?thesis
    unfolding ParseHost_prefix by simp
qed

text \<open>
  The three addresses of the specification, and one environment for each further case.
\<close>

theorem ParseHost_normalises_witness:
  "ParseHost [''HOSTNAME'' \<mapsto> ''example.com'', ''PORT'' \<mapsto> ''9090''] [] = ''example.com:9090''
   \<and> ParseHost Map.empty '':9090'' = ''0.0.0.0:9090''
   \<and> ParseHost Map.empty '':https'' = ''0.0.0.0:443''
   \<and> ParseHost [''ADDR'' \<mapsto> '':https'', ''HOST'' \<mapsto> ''h''] [] = ''0.0.0.0:443''
   \<and> ParseHost [''HOST'' \<mapsto> ''h:1'', ''PORT'' \<mapsto> ''2''] [] = ''h:1''
   \<and> ParseHost [''HOSTNAME'' \<mapsto> ''example.com''] [] = ''example.com''
   \<and> ParseHost [''PORT'' \<mapsto> ''9090''] [] = ''0.0.0.0:9090''
   \<and> ParseHost Map.empty [] = ''0.0.0.0:8080''
   \<and> ParseHost [''ADDR'' \<mapsto> ''10.0.0.1:80''] ''example.com:9090'' = ''example.com:9090''"
  using ParseHost_normalises [of "[]" "[''HOSTNAME'' \<mapsto> ''example.com'', ''PORT'' \<mapsto> ''9090'']"]
    ParseHost_normalises [of "'':9090''" Map.empty]
    ParseHost_normalises [of "'':https''" Map.empty]
    ParseHost_normalises [of "[]" "[''ADDR'' \<mapsto> '':https'', ''HOST'' \<mapsto> ''h'']"]
    ParseHost_normalises [of "[]" "[''HOST'' \<mapsto> ''h:1'', ''PORT'' \<mapsto> ''2'']"]
    ParseHost_normalises [of "[]" "[''HOSTNAME'' \<mapsto> ''example.com'']"]
    ParseHost_normalises [of "[]" "[''PORT'' \<mapsto> ''9090'']"]
    ParseHost_normalises [of "[]" Map.empty]
    ParseHost_normalises [of "''example.com:9090''" "[''ADDR'' \<mapsto> ''10.0.0.1:80'']"]
  by (simp add: Getenv_def spec_prefix_host_def)

text \<open>
  An address without a colon does not fall back to the environment: with \<open>ADDR\<close> set,
  \<open>localhost\<close> stays \<open>localhost\<close>.
\<close>

theorem ParseHost_no_colon_counterexample:
  "CHR '':'' \<notin> set ''localhost''
   \<and> Getenv [''ADDR'' \<mapsto> ''10.0.0.1:80''] ''ADDR'' = ''10.0.0.1:80''
   \<and> ParseHost [''ADDR'' \<mapsto> ''10.0.0.1:80''] ''localhost'' = ''localhost''
   \<and> ParseHost [''ADDR'' \<mapsto> ''10.0.0.1:80''] ''localhost'' \<noteq> ''10.0.0.1:80''"
  by (simp add: ParseHost_def Getenv_def slice_from_def)


section \<open>Properties of the dispatcher\<close>

lemma example_proxy_Setup:
  "Setup url_Parse_scheme example_config = ((gm, None), log) \<Longrightarrow>
   AddHostHandler gm ''a.com'' 7 = Inr example_proxy \<and> log = []"
  by (auto simp: Setup_def example_config_def url_Parse_scheme_def AddHostHandler_def
      example_proxy_def)

text \<open>
  Claim C1. The root handler decides on the Host header of the request alone, trying in this
  order: the local handler registered for exactly that host, whatever the proxy table and
  the static root hold; else the reverse proxy configured for exactly that host; else, when
  the static root is not empty, \<^verbatim>\<open>http.ServeFile\<close>; else status 404.
\<close>

theorem proxyHandler_priority:
  "(map_index (handlers gm) (Request.Host req) = Some h \<longrightarrow>
      proxyHandler gm req = Handler_ServeHTTP h req)
   \<and> (map_index (handlers gm) (Request.Host req) = None
        \<and> map_index (proxies gm) (Request.Host req) = Some p \<longrightarrow>
      proxyHandler gm req = ReverseProxy_ServeHTTP p req)
   \<and> (map_index (handlers gm) (Request.Host req) = None
        \<and> map_index (proxies gm) (Request.Host req) = None
        \<and> StaticDir (config gm) \<noteq> [] \<longrightarrow>
      proxyHandler gm req =
        http_ServeFile req (Join [StaticDir (config gm), Request.Host req]))
   \<and> (map_index (handlers gm) (Request.Host req) = None
        \<and> map_index (proxies gm) (Request.Host req) = None
        \<and> StaticDir (config gm) = [] \<longrightarrow>
      proxyHandler gm req = WriteHeader 404)"
  by (simp add: proxyHandler_def StatusNotFound_def)

text \<open>
  The example proxy has a handler and a route for \<open>a.com\<close>, a route for \<open>b.com\<close> and
  nothing for \<open>c.com\<close>.
\<close>

theorem proxyHandler_priority_witness:
  "proxyHandler example_proxy (example_request ''a.com'')
     = Handler_ServeHTTP 7 (example_request ''a.com'')
   \<and> proxyHandler example_proxy (example_request ''b.com'')
     = ReverseProxy_ServeHTTP (NewSingleHostReverseProxy ''http://127.0.0.1:9001'')
         (example_request ''b.com'')
   \<and> proxyHandler example_proxy (example_request ''c.com'')
     = http_ServeFile (example_request ''c.com'') ''www/c.com''
   \<and> proxyHandler (example_proxy\<lparr>config := example_config\<lparr>StaticDir := []\<rparr>\<rparr>)
        (example_request ''c.com'')
     = WriteHeader 404"
  using proxyHandler_priority [of example_proxy "example_request ''a.com''" 7]
    proxyHandler_priority [of example_proxy "example_request ''b.com''" _
      "NewSingleHostReverseProxy ''http://127.0.0.1:9001''"]
    proxyHandler_priority [of example_proxy "example_request ''c.com''"]
    proxyHandler_priority [of "example_proxy\<lparr>config := example_config\<lparr>StaticDir := []\<rparr>\<rparr>"
      "example_request ''c.com''"]
  by (simp add: map_index_def example_proxy_def example_request_def example_config_def Clean_def)

text \<open>
  Claim C3 at an example. The static root of the example proxy is \<open>www\<close> and the host
  \<open>c.com\<close> has neither a handler nor a route. A site kept under \<open>www/c.com\<close> would
  have its style sheet at \<open>www/c.com/css/site.css\<close>, the path that
  \<^verbatim>\<open>path.Join\<close> gives for the static root, the host and the requested path. The root
  handler calls \<^verbatim>\<open>http.ServeFile\<close> with the name \<open>www/c.com\<close> instead, for the request
  of \<open>/css/site.css\<close> as for the request of \<open>/\<close>: the requested path is no part of the
  name that is served.
\<close>

theorem static_fallback_ignores_requested_path:
  "proxyHandler example_proxy
      \<lparr>Host = ''c.com'', URL_Path = ''/css/site.css'', RequestURI = ''/css/site.css''\<rparr>
     = http_ServeFile
         \<lparr>Host = ''c.com'', URL_Path = ''/css/site.css'', RequestURI = ''/css/site.css''\<rparr>
         ''www/c.com''
   \<and> proxyHandler example_proxy \<lparr>Host = ''c.com'', URL_Path = ''/'', RequestURI = ''/''\<rparr>
     = http_ServeFile \<lparr>Host = ''c.com'', URL_Path = ''/'', RequestURI = ''/''\<rparr> ''www/c.com''
   \<and> Join [''www'', ''c.com'', ''/css/site.css''] = ''www/c.com/css/site.css''
   \<and> ''www/c.com'' \<noteq> ''www/c.com/css/site.css''"
  by (simp add: proxyHandler_def map_index_def example_proxy_def example_config_def Clean_def)


text \<open>
  Claim C7. AddHostHandler fails with the error \<open>The host cannot be empty\<close> for the empty
  host; for a host that is not empty it fails with \<open>Setup() must be called\<close> when the
  handler table is nil, as it is before Setup; otherwise it stores the handler under the
  host and leaves every other entry, the proxy table and the configuration as they were. A
  request for that host is then given to this handler, and after a second registration for
  the same host to the second handler. On the proxy that Setup returns it succeeds for every
  host that is not empty.
\<close>

theorem AddHostHandler_last_write_wins:
  "AddHostHandler gm [] handler = Inl (fmt_Errorf ''The host cannot be empty'' [])
   \<and> (host \<noteq> [] \<and> handlers gm = None \<longrightarrow>
        AddHostHandler gm host handler = Inl (fmt_Errorf ''Setup() must be called'' []))
   \<and> (host \<noteq> [] \<and> handlers gm \<noteq> None \<longrightarrow>
        (\<exists>gm'. AddHostHandler gm host handler = Inr gm'
           \<and> config gm' = config gm \<and> proxies gm' = proxies gm
           \<and> map_index (handlers gm') host = Some handler
           \<and> (\<forall>k. k \<noteq> host \<longrightarrow> map_index (handlers gm') k = map_index (handlers gm) k)
           \<and> (\<forall>req. Request.Host req = host \<longrightarrow>
                 proxyHandler gm' req = Handler_ServeHTTP handler req)
           \<and> (\<forall>handler2. \<exists>gm''. AddHostHandler gm' host handler2 = Inr gm''
                 \<and> (\<forall>req. Request.Host req = host \<longrightarrow>
                       proxyHandler gm'' req = Handler_ServeHTTP handler2 req))))
   \<and> (host \<noteq> [] \<longrightarrow>
        (\<exists>gm'. AddHostHandler (fst (fst (Setup url_Parse cfg))) host handler = Inr gm'))"
  by (auto simp: AddHostHandler_def map_index_def proxyHandler_def Setup_def
      split: option.splits prod.splits)

theorem AddHostHandler_last_write_wins_witness:
  "AddHostHandler example_proxy [] 8 = Inl (fmt_Errorf ''The host cannot be empty'' [])
   \<and> AddHostHandler (example_proxy\<lparr>handlers := None\<rparr>) ''a.com'' 8
       = Inl (fmt_Errorf ''Setup() must be called'' [])
   \<and> (\<exists>gm'. AddHostHandler example_proxy ''a.com'' 8 = Inr gm'
         \<and> proxyHandler gm' (example_request ''a.com'')
             = Handler_ServeHTTP 8 (example_request ''a.com''))"
proof -
  note t1 = AddHostHandler_last_write_wins [of example_proxy 8 "''a.com''" url_Parse_scheme
      example_config]
  note t2 = AddHostHandler_last_write_wins [of "example_proxy\<lparr>handlers := None\<rparr>" 8 "''a.com''"
      url_Parse_scheme example_config]
  have h1: "''a.com'' \<noteq> [] \<and> handlers example_proxy \<noteq> None"
    by (simp add: example_proxy_def)
  have h2: "''a.com'' \<noteq> [] \<and> handlers (example_proxy\<lparr>handlers := None\<rparr>) = None"
    by simp
  have h3: "Request.Host (example_request ''a.com'') = ''a.com''"
    by (simp add: example_request_def)
  from t1 have c1: "AddHostHandler example_proxy [] 8 = Inl (fmt_Errorf ''The host cannot be empty'' [])"
    by blast
  from t2 h2 have c2: "AddHostHandler (example_proxy\<lparr>handlers := None\<rparr>) ''a.com'' 8
       = Inl (fmt_Errorf ''Setup() must be called'' [])"
    by blast
  from t1 h1 obtain gm' where g: "AddHostHandler example_proxy ''a.com'' 8 = Inr gm'"
    and d: "\<forall>req. Request.Host req = ''a.com'' \<longrightarrow> proxyHandler gm' req = Handler_ServeHTTP 8 req"
    by blast
  from d h3 have "proxyHandler gm' (example_request ''a.com'')
             = Handler_ServeHTTP 8 (example_request ''a.com'')"
    by blast
  with g c1 c2 show ?thesis by blast
qed

text \<open>
  Claim C10. The tables are read with the Host header as it was sent. For a host \<open>h\<close>
  without a colon, a request whose Host header is \<open>h\<close>, a colon and a port is not touched
  by a handler or a route registered under \<open>h\<close>: the answer is the same with and without
  that registration, and when \<open>h\<close> is the only entry of both tables the request falls
  through to the static root or to 404. The redirect handler, for the same request, reads
  the host as \<open>h\<close>.
\<close>

theorem host_with_port_is_another_key:
  assumes "CHR '':'' \<notin> set h"
    and "Request.Host req = h @ '':'' @ port"
  shows "(\<forall>handler gm'. AddHostHandler gm h handler = Inr gm' \<longrightarrow>
            proxyHandler gm' req = proxyHandler gm req)
   \<and> (\<forall>tbl p. proxies gm = Some tbl \<longrightarrow>
            proxyHandler (gm\<lparr>proxies := Some (tbl(h \<mapsto> p))\<rparr>) req = proxyHandler gm req)
   \<and> (handlers gm = Some [h \<mapsto> handler] \<and> proxies gm = Some [h \<mapsto> p] \<longrightarrow>
        proxyHandler gm req =
          (if StaticDir (config gm) \<noteq> []
           then http_ServeFile req (Join [StaticDir (config gm), h @ '':'' @ port])
           else WriteHeader 404))
   \<and> realHost req = h"
proof -
  have ne: "h @ '':'' @ port \<noteq> h" by simp
  have rh: "realHost req = h"
    using assms IndexByte_append [of "CHR '':''" h port]
    by (simp add: realHost_def slice_to_def Let_def)
  have a: "proxyHandler gm' req = proxyHandler gm req"
    if "AddHostHandler gm h handler = Inr gm'" for handler gm'
  proof (cases "handlers gm")
    case None
    with that show ?thesis by (simp add: AddHostHandler_def split: if_splits)
  next
    case (Some t)
    with that have "gm' = gm\<lparr>handlers := Some (t(h \<mapsto> handler))\<rparr>"
      by (simp add: AddHostHandler_def split: if_splits)
    with Some ne have "map_index (handlers gm') (Request.Host req)
        = map_index (handlers gm) (Request.Host req)"
      and "proxies gm' = proxies gm" and "config gm' = config gm"
      by (simp_all add: map_index_def assms(2))
    then show ?thesis by (simp add: proxyHandler_def cong: option.case_cong if_cong)
  qed
  have b: "proxyHandler (gm\<lparr>proxies := Some (tbl(h \<mapsto> p))\<rparr>) req = proxyHandler gm req"
    if "proxies gm = Some tbl" for tbl p
  proof -
    from that ne have "map_index (proxies (gm\<lparr>proxies := Some (tbl(h \<mapsto> p))\<rparr>)) (Request.Host req)
        = map_index (proxies gm) (Request.Host req)"
      by (simp add: map_index_def assms(2))
    then show ?thesis by (simp add: proxyHandler_def cong: option.case_cong if_cong)
  qed
  have c: "proxyHandler gm req =
          (if StaticDir (config gm) \<noteq> []
           then http_ServeFile req (Join [StaticDir (config gm), h @ '':'' @ port])
           else WriteHeader 404)"
    if "handlers gm = Some [h \<mapsto> handler]" "proxies gm = Some [h \<mapsto> p]"
    using that ne by (simp add: proxyHandler_def map_index_def assms(2) StatusNotFound_def)
  from a b c rh show ?thesis by blast
qed

theorem host_with_port_is_another_key_witness:
  "(\<exists>gm'. AddHostHandler (example_proxy\<lparr>handlers := Some Map.empty\<rparr>) ''c.com'' 9 = Inr gm'
      \<and> proxyHandler gm' (example_request ''c.com:8443'')
          = http_ServeFile (example_request ''c.com:8443'') ''www/c.com:8443'')
   \<and> realHost (example_request ''c.com:8443'') = ''c.com''"
proof -
  have 1: "CHR '':'' \<notin> set ''c.com''" by simp
  have 2: "Request.Host (example_request ''c.com:8443'') = ''c.com'' @ '':'' @ ''8443''"
    by (simp add: example_request_def)
  have 3: "proxyHandler (example_proxy\<lparr>handlers := Some Map.empty\<rparr>) (example_request ''c.com:8443'')
        = http_ServeFile (example_request ''c.com:8443'') ''www/c.com:8443''"
    by (simp add: proxyHandler_def map_index_def example_proxy_def example_request_def
        example_config_def Clean_def)
  obtain gm' where 4: "AddHostHandler (example_proxy\<lparr>handlers := Some Map.empty\<rparr>) ''c.com'' 9 = Inr gm'"
    by (simp add: AddHostHandler_def)
  note t = host_with_port_is_another_key [OF 1 2, of "example_proxy\<lparr>handlers := Some Map.empty\<rparr>"]
  from t 4 have "proxyHandler gm' (example_request ''c.com:8443'')
      = proxyHandler (example_proxy\<lparr>handlers := Some Map.empty\<rparr>) (example_request ''c.com:8443'')"
    by blast
  moreover from t have "realHost (example_request ''c.com:8443'') = ''c.com''"
    by blast
  ultimately show ?thesis using 3 4 by simp
qed


section \<open>Properties of Setup\<close>

lemma Setup_proxies_tbl:
  "fst (Setup_proxies url_Parse rs (tbl, log)) h =
     (case filter (\<lambda>r. HostConfig.Proxy r = h \<and> \<not> isl (url_Parse (HostConfig.Host r))) rs of
        [] \<Rightarrow> tbl h
      | x # xs \<Rightarrow> Some (NewSingleHostReverseProxy (projr (url_Parse (HostConfig.Host (last (x # xs)))))))"
proof (induction rs arbitrary: tbl log)
  case Nil
  show ?case by simp
next
  case (Cons r rs)
  show ?case
  proof (cases "url_Parse (HostConfig.Host r)")
    case (Inl err)
    then show ?thesis by (simp add: Cons.IH)
  next
    case (Inr u)
    then show ?thesis
      by (simp add: Cons.IH split: list.splits)
  qed
qed

lemma Setup_proxies_log:
  "snd (Setup_proxies url_Parse rs (tbl, log)) =
     log @ concat (map (\<lambda>r. case url_Parse (HostConfig.Host r) of
                               Inl err \<Rightarrow> [Warn ''Could not parse Host: %s'' [ErrorOf err]]
                             | Inr u \<Rightarrow> []) rs)"
proof (induction rs arbitrary: tbl log)
  case Nil
  show ?case by simp
next
  case (Cons r rs)
  show ?case
    by (cases "url_Parse (HostConfig.Host r)") (simp_all add: Cons.IH)
qed

lemma Setup_proxies_skip:
  "fst (Setup_proxies url_Parse rs (tbl, log)) =
   fst (Setup_proxies url_Parse (filter (\<lambda>r. \<not> isl (url_Parse (HostConfig.Host r))) rs) (tbl, log'))"
proof (induction rs arbitrary: tbl log log')
  case Nil
  show ?case by simp
next
  case (Cons r rs)
  show ?case
  proof (cases "url_Parse (HostConfig.Host r)")
    case (Inl err)
    then show ?thesis
      by (simp add: Cons.IH [where log' = log'] fun_upd_def)
  next
    case (Inr u)
    then show ?thesis
      by (simp add: Cons.IH [where log' = log'] fun_upd_def)
  qed
qed

lemma Setup_parts:
  "Setup url_Parse cfg =
     ((\<lparr>config = cfg, handlers = Some Map.empty,
        proxies = Some (fst (Setup_proxies url_Parse (Proxies cfg) (Map.empty, [])))\<rparr>, None),
      snd (Setup_proxies url_Parse (Proxies cfg) (Map.empty, [])))"
  by (simp add: Setup_def split: prod.splits)

lemma Setup_lookup:
  assumes "Setup url_Parse cfg = ((gm, err), log)"
  shows "map_index (proxies gm) h =
     (case filter (\<lambda>r. HostConfig.Proxy r = h \<and> \<not> isl (url_Parse (HostConfig.Host r))) (Proxies cfg) of
        [] \<Rightarrow> None
      | x # xs \<Rightarrow> Some (NewSingleHostReverseProxy (projr (url_Parse (HostConfig.Host (last (x # xs)))))))"
proof -
  from assms have "proxies gm = Some (fst (Setup_proxies url_Parse (Proxies cfg) (Map.empty, [])))"
    by (auto simp: Setup_parts)
  then show ?thesis by (simp add: map_index_def Setup_proxies_tbl)
qed

lemma Setup_lookup_last:
  assumes "Setup url_Parse cfg = ((gm, err), log)"
    and "filter (\<lambda>r. HostConfig.Proxy r = h \<and> \<not> isl (url_Parse (HostConfig.Host r))) (Proxies cfg) = xs"
    and "xs \<noteq> []"
  shows "map_index (proxies gm) h =
     Some (NewSingleHostReverseProxy (projr (url_Parse (HostConfig.Host (last xs)))))"
proof -
  from assms(3) obtain y ys where "xs = y # ys" by (cases xs) auto
  with assms(2) show ?thesis by (simp only: Setup_lookup [OF assms(1)] list.case)
qed

text \<open>
  Claim C8. Setup returns no error, whatever the configuration and whatever
  \<^verbatim>\<open>url.Parse\<close> answers. A route whose URL does not parse is skipped with one call of
  \<^verbatim>\<open>logger.Warn\<close>: the proxy table is the one that the configuration without these routes
  gives. Every route whose URL parses is entered: its host has an entry, which is the proxy
  for this route's URL unless a later well-formed route for the same host replaced it. A host
  all of whose routes fail to parse has no entry.
\<close>

theorem Setup_skips_unparsed_routes:
  fixes gm :: "('h, 'u) Proxy"
  assumes "Setup url_Parse cfg = ((gm, err), log)"
  shows "err = None
   \<and> (\<forall>(gm' :: ('h, 'u) Proxy) err' log'.
         Setup url_Parse
           (cfg\<lparr>Proxies := filter (\<lambda>r. \<not> isl (url_Parse (HostConfig.Host r))) (Proxies cfg)\<rparr>)
           = ((gm', err'), log') \<longrightarrow>
         proxies gm' = proxies gm \<and> handlers gm' = handlers gm)
   \<and> (\<forall>r\<in>set (Proxies cfg). \<forall>e. url_Parse (HostConfig.Host r) = Inl e \<longrightarrow>
         Warn ''Could not parse Host: %s'' [ErrorOf e] \<in> set log)
   \<and> (\<forall>r\<in>set (Proxies cfg). \<forall>u. url_Parse (HostConfig.Host r) = Inr u \<longrightarrow>
         map_index (proxies gm) (HostConfig.Proxy r) \<noteq> None)
   \<and> (\<forall>pre r post u. Proxies cfg = pre @ r # post \<and> url_Parse (HostConfig.Host r) = Inr u
         \<and> (\<forall>q\<in>set post. HostConfig.Proxy q = HostConfig.Proxy r \<longrightarrow>
               isl (url_Parse (HostConfig.Host q))) \<longrightarrow>
         map_index (proxies gm) (HostConfig.Proxy r) = Some (NewSingleHostReverseProxy u))
   \<and> (\<forall>h. (\<forall>r\<in>set (Proxies cfg). HostConfig.Proxy r = h \<longrightarrow>
               isl (url_Parse (HostConfig.Host r))) \<longrightarrow>
         map_index (proxies gm) h = None)"
proof -
  let ?P = "\<lambda>h r. HostConfig.Proxy r = h \<and> \<not> isl (url_Parse (HostConfig.Host r))"
  note S = assms [unfolded Setup_parts]
  have a: "err = None"
    using S by auto
  have b: "proxies gm' = proxies gm \<and> handlers gm' = handlers gm"
    if "Setup url_Parse
           (cfg\<lparr>Proxies := filter (\<lambda>r. \<not> isl (url_Parse (HostConfig.Host r))) (Proxies cfg)\<rparr>)
           = ((gm', err'), log')" for gm' :: "('h, 'u) Proxy" and err' log'
    using that [unfolded Setup_parts] S
      Setup_proxies_skip [of url_Parse "Proxies cfg" Map.empty "[]" "[]"]
    by auto
  have c: "Warn ''Could not parse Host: %s'' [ErrorOf e] \<in> set log"
    if "r \<in> set (Proxies cfg)" "url_Parse (HostConfig.Host r) = Inl e" for r e
  proof -
    have "Warn ''Could not parse Host: %s'' [ErrorOf e]
        \<in> set (case url_Parse (HostConfig.Host r) of
                  Inl err \<Rightarrow> [Warn ''Could not parse Host: %s'' [ErrorOf err]]
                | Inr u \<Rightarrow> [])"
      using that(2) by simp
    moreover have "log = snd (Setup_proxies url_Parse (Proxies cfg) (Map.empty, []))"
      using S by auto
    ultimately show ?thesis
      using that(1) unfolding Setup_proxies_log by auto
  qed
  have e: "map_index (proxies gm) (HostConfig.Proxy r) = Some (NewSingleHostReverseProxy u)"
    if "Proxies cfg = pre @ r # post" "url_Parse (HostConfig.Host r) = Inr u"
      "\<forall>q\<in>set post. HostConfig.Proxy q = HostConfig.Proxy r \<longrightarrow> isl (url_Parse (HostConfig.Host q))"
    for pre r post u
  proof -
    have "filter (?P (HostConfig.Proxy r)) post = []"
      using that(3) by (auto simp: filter_empty_conv)
    then have "filter (?P (HostConfig.Proxy r)) (Proxies cfg)
        = filter (?P (HostConfig.Proxy r)) pre @ [r]"
      using that(1,2) by simp
    from Setup_lookup_last [OF assms this] show ?thesis
      using that(2) by simp
  qed
  have d: "map_index (proxies gm) (HostConfig.Proxy r) \<noteq> None"
    if "r \<in> set (Proxies cfg)" "url_Parse (HostConfig.Host r) = Inr u" for r u
  proof -
    have "r \<in> set (filter (?P (HostConfig.Proxy r)) (Proxies cfg))"
      using that by simp
    then have "filter (?P (HostConfig.Proxy r)) (Proxies cfg) \<noteq> []"
      by (metis empty_iff empty_set)
    from Setup_lookup_last [OF assms refl this] show ?thesis by simp
  qed
  have f: "map_index (proxies gm) h = None"
    if "\<forall>r\<in>set (Proxies cfg). HostConfig.Proxy r = h \<longrightarrow> isl (url_Parse (HostConfig.Host r))"
    for h
  proof -
    have "filter (?P h) (Proxies cfg) = []"
      using that by (auto simp: filter_empty_conv)
    then show ?thesis by (simp add: Setup_lookup [OF assms])
  qed
  from a b c d e f show ?thesis by blast
qed

theorem Setup_skips_unparsed_routes_witness:
  "snd (fst (Setup url_Parse_scheme skipped_config :: ((nat, string) Proxy \<times> error option) \<times> LogCall list))
     = None
   \<and> snd (Setup url_Parse_scheme skipped_config :: ((nat, string) Proxy \<times> error option) \<times> LogCall list)
     = [Warn ''Could not parse Host: %s'' [ErrorOf (errors_New ''missing protocol scheme'')]]
   \<and> map_index (proxies (fst (fst (Setup url_Parse_scheme skipped_config
         :: ((nat, string) Proxy \<times> error option) \<times> LogCall list)))) ''a.com''
     = Some (NewSingleHostReverseProxy ''http://127.0.0.1:9000'')
   \<and> map_index (proxies (fst (fst (Setup url_Parse_scheme skipped_config
         :: ((nat, string) Proxy \<times> error option) \<times> LogCall list)))) ''b.com''
     = Some (NewSingleHostReverseProxy ''http://127.0.0.1:9001'')
   \<and> map_index (proxies (fst (fst (Setup url_Parse_scheme skipped_config
         :: ((nat, string) Proxy \<times> error option) \<times> LogCall list)))) ''bad.com''
     = None"
proof -
  define gm :: "(nat, string) Proxy" where
    "gm = \<lparr>config = skipped_config, handlers = Some Map.empty,
           proxies = Some [''a.com'' \<mapsto> NewSingleHostReverseProxy ''http://127.0.0.1:9000'',
                           ''b.com'' \<mapsto> NewSingleHostReverseProxy ''http://127.0.0.1:9001'']\<rparr>"
  have S: "Setup url_Parse_scheme skipped_config
      = ((gm, None), [Warn ''Could not parse Host: %s'' [ErrorOf (errors_New ''missing protocol scheme'')]])"
    by (simp add: Setup_def skipped_config_def example_config_def url_Parse_scheme_def gm_def)
  have P: "Proxies skipped_config
      = [\<lparr>Proxy = ''a.com'', Host = ''http://127.0.0.1:9000''\<rparr>] @
        \<lparr>Proxy = ''bad.com'', Host = '':9002''\<rparr> #
        [\<lparr>Proxy = ''b.com'', Host = ''http://127.0.0.1:9001''\<rparr>]"
    by (simp add: skipped_config_def example_config_def)
  have bad: "\<forall>r\<in>set (Proxies skipped_config). HostConfig.Proxy r = ''bad.com'' \<longrightarrow>
      isl (url_Parse_scheme (HostConfig.Host r))"
    by (simp add: P url_Parse_scheme_def)
  from Setup_skips_unparsed_routes [OF S] bad
  have "map_index (proxies gm) ''bad.com'' = None"
    by blast
  then show ?thesis
    by (simp add: S) (simp add: gm_def map_index_def)
qed

text \<open>
  Claim C9, as the code has it. When exactly two routes of the configuration name the host
  \<open>h\<close>, the proxy table has at most one entry for \<open>h\<close>: the proxy for the later route
  when its URL parses; otherwise the proxy for the earlier route when that one parses;
  otherwise none.
\<close>

theorem Setup_duplicate_hosts:
  assumes "Setup url_Parse cfg = ((gm, err), log)"
    and "Proxies cfg = pre @ r1 # mid @ r2 # post"
    and "HostConfig.Proxy r1 = h" and "HostConfig.Proxy r2 = h"
    and "\<forall>q\<in>set pre \<union> set mid \<union> set post. HostConfig.Proxy q \<noteq> h"
  shows "map_index (proxies gm) h =
     (case url_Parse (HostConfig.Host r2) of
        Inr u2 \<Rightarrow> Some (NewSingleHostReverseProxy u2)
      | Inl err2 \<Rightarrow>
          (case url_Parse (HostConfig.Host r1) of
             Inr u1 \<Rightarrow> Some (NewSingleHostReverseProxy u1)
           | Inl err1 \<Rightarrow> None))"
proof -
  let ?P = "\<lambda>r. HostConfig.Proxy r = h \<and> \<not> isl (url_Parse (HostConfig.Host r))"
  have "filter ?P pre = []" "filter ?P mid = []" "filter ?P post = []"
    using assms(5) by (auto simp: filter_empty_conv)
  then have F: "filter ?P (Proxies cfg) = filter ?P [r1, r2]"
    by (simp add: assms(2))
  show ?thesis
    unfolding Setup_lookup [OF assms(1)] F
    using assms(3,4)
    by (cases "url_Parse (HostConfig.Host r1)"; cases "url_Parse (HostConfig.Host r2)") simp_all
qed

theorem Setup_duplicate_hosts_witness:
  "map_index (proxies (fst (fst (Setup url_Parse_scheme duplicate_config_ok
         :: ((nat, string) Proxy \<times> error option) \<times> LogCall list)))) ''a.com''
     = Some (NewSingleHostReverseProxy ''http://127.0.0.1:9002'')"
proof -
  obtain gm :: "(nat, string) Proxy" and err log
    where S: "Setup url_Parse_scheme duplicate_config_ok = ((gm, err), log)"
    by (metis surj_pair)
  have P: "Proxies duplicate_config_ok
      = [] @ \<lparr>Proxy = ''a.com'', Host = ''http://127.0.0.1:9000''\<rparr> #
        [\<lparr>Proxy = ''b.com'', Host = ''http://127.0.0.1:9001''\<rparr>] @
        \<lparr>Proxy = ''a.com'', Host = ''http://127.0.0.1:9002''\<rparr> # []"
    by (simp add: duplicate_config_ok_def example_config_def)
  have "map_index (proxies gm) ''a.com''
      = Some (NewSingleHostReverseProxy ''http://127.0.0.1:9002'')"
    using Setup_duplicate_hosts [OF S P, of "''a.com''"]
    by (simp add: url_Parse_scheme_def)
  then show ?thesis by (simp add: S)
qed

text \<open>
  Two routes for \<open>a.com\<close>, the later with the URL \<open>:9001\<close>, which does not parse: the
  active route is the earlier one.
\<close>

theorem Setup_duplicate_hosts_counterexample:
  "map_index (proxies (fst (fst (Setup url_Parse_scheme duplicate_config
         :: ((nat, string) Proxy \<times> error option) \<times> LogCall list)))) ''a.com''
     = Some (NewSingleHostReverseProxy ''http://127.0.0.1:9000'')
   \<and> map_index (proxies (fst (fst (Setup url_Parse_scheme duplicate_config
         :: ((nat, string) Proxy \<times> error option) \<times> LogCall list)))) ''a.com''
     \<noteq> Some (NewSingleHostReverseProxy '':9001'')
   \<and> url_Parse_scheme '':9001'' = Inl (errors_New ''missing protocol scheme'')"
  by (simp add: Setup_def duplicate_config_def example_config_def url_Parse_scheme_def
      map_index_def)


section \<open>Properties of the choice of the listener\<close>

lemma TCP4_ParseHost:
  "TCP4 os (ParseHost (Environ os) a) = net_Listen os ''tcp4'' (ParseHost (Environ os) a)"
  by (simp add: TCP4_def ParseHost_idem)

lemma acme_addr:
  assumes "addr = ParseHost env a"
  shows "ParseHost env (if IndexByte addr CHR '':'' = - 1 then addr @ DefaultSSLAddr else addr)
     = (if CHR '':'' \<in> set addr then addr else addr @ '':443'')"
proof -
  have sh: "addr \<noteq> [] \<and> hd addr \<noteq> CHR '':''"
    unfolding assms by (rule ParseHost_shape)
  then have "addr @ '':443'' \<noteq> [] \<and> hd (addr @ '':443'') \<noteq> CHR '':''"
    by simp
  then have "ParseHost env (addr @ '':443'') = addr @ '':443''"
    by (simp add: ParseHost_fixed)
  moreover have "ParseHost env addr = addr"
    using sh by (simp add: ParseHost_fixed)
  ultimately show ?thesis
    by (simp add: IndexByte_absent DefaultSSLAddr_def)
qed

lemma LETSENCRYPTPROD_listen:
  assumes "addr = ParseHost (Environ os) a"
    and "net_Listen os ''tcp4'' (if CHR '':'' \<in> set addr then addr else addr @ '':443'') = Inr ln"
  shows "LETSENCRYPTPROD os addr
     = Inr (tls_NewListener ln (GetCertificate_autocert_AcceptTOS ''./certcache''))"
  using assms(2) acme_addr [OF assms(1)]
  by (simp add: LETSENCRYPTPROD_def TCP4_def Let_def)

lemma LETSENCRYPT_listen:
  assumes "addr = ParseHost (Environ os) a"
    and "net_Listen os ''tcp4'' (if CHR '':'' \<in> set addr then addr else addr @ '':443'') = Inr ln"
    and "CacheFile os ''./letsencrypt.cache'' = None"
  shows "LETSENCRYPT os addr
     = Inr (tls_NewListener ln (GetCertificate_letsencrypt ''./letsencrypt.cache''))"
  using assms(2,3) acme_addr [OF assms(1)]
  by (simp add: LETSENCRYPT_def TCP4_def Let_def)

lemma TLS_listen:
  assumes "addr = ParseHost (Environ os) a"
    and "certFile \<noteq> []" and "keyFile \<noteq> []"
    and "LoadX509KeyPair os certFile keyFile = Inr cert"
    and "net_Listen os ''tcp4'' addr = Inr ln"
  shows "TLS os addr certFile keyFile = Inr (tls_NewListener ln (Certificates [cert] True))"
  using assms(2-5) TCP4_ParseHost [of os a]
  by (simp add: TLS_def CERT_def assms(1))

lemma TLS_load_failure:
  assumes "certFile \<noteq> []" and "keyFile \<noteq> []"
    and "LoadX509KeyPair os certFile keyFile = Inl err"
  shows "TLS os addr certFile keyFile
     = Inl (errParseTLS_Format [Str certFile, Str keyFile, ErrorOf err])"
  using assms by (simp add: TLS_def)

text \<open>
  Claim C5. Listen chooses the listener by one of three branches, in this order, on the
  normalised address. With both the certificate file and the key file given, the listener is
  that of \<^verbatim>\<open>TLS\<close>: a failure to load the key pair is the error of the call, on which
  Listen ends the process through \<^verbatim>\<open>logger.Fatal\<close>, and a loaded pair gives a TLS
  listener with exactly that certificate. Otherwise, unless automatic certificates are
  disabled, it is the listener of \<^verbatim>\<open>LETSENCRYPTPROD\<close> when the production flag is set and of
  \<^verbatim>\<open>LETSENCRYPT\<close> when it is not, on port 443 when the address names no port. Otherwise it
  is the plain TCP listener.
\<close>

theorem Listen_ln_priority:
  assumes "addr = ParseHost (Environ os) (Configuration.Addr (config gm))"
    and "certFile = CertFile (Default (SSL (config gm)))"
    and "keyFile = KeyFile (Default (SSL (config gm)))"
    and "acme = (if CHR '':'' \<in> set addr then addr else addr @ '':443'')"
  shows
   "(certFile \<noteq> [] \<and> keyFile \<noteq> [] \<longrightarrow>
       Listen_ln os gm = TLS os addr certFile keyFile
       \<and> (\<forall>err. LoadX509KeyPair os certFile keyFile = Inl err \<longrightarrow>
            Listen_ln os gm = Inl (errParseTLS_Format [Str certFile, Str keyFile, ErrorOf err])
            \<and> Listen os gm = os_Exit (Fatal ''Cannot get SSL listener: %s''
                  [ErrorOf (errParseTLS_Format [Str certFile, Str keyFile, ErrorOf err])]))
       \<and> (\<forall>cert ln. LoadX509KeyPair os certFile keyFile = Inr cert
              \<and> net_Listen os ''tcp4'' addr = Inr ln \<longrightarrow>
            Listen_ln os gm = Inr (tls_NewListener ln (Certificates [cert] True))))
    \<and> (\<not> (certFile \<noteq> [] \<and> keyFile \<noteq> []) \<and> \<not> DisableLetsEncrypt (SSL (config gm)) \<longrightarrow>
       Listen_ln os gm =
         (if Prod (config gm) then LETSENCRYPTPROD os addr else LETSENCRYPT os addr)
       \<and> (\<forall>ln. Prod (config gm) \<and> net_Listen os ''tcp4'' acme = Inr ln \<longrightarrow>
            Listen_ln os gm
              = Inr (tls_NewListener ln (GetCertificate_autocert_AcceptTOS ''./certcache'')))
       \<and> (\<forall>ln. \<not> Prod (config gm) \<and> net_Listen os ''tcp4'' acme = Inr ln
              \<and> CacheFile os ''./letsencrypt.cache'' = None \<longrightarrow>
            Listen_ln os gm
              = Inr (tls_NewListener ln (GetCertificate_letsencrypt ''./letsencrypt.cache''))))
    \<and> (\<not> (certFile \<noteq> [] \<and> keyFile \<noteq> []) \<and> DisableLetsEncrypt (SSL (config gm)) \<longrightarrow>
       (\<forall>ln. net_Listen os ''tcp4'' addr = Inr ln \<longrightarrow> Listen_ln os gm = Inr (TCPListener ln))
       \<and> (\<forall>err. net_Listen os ''tcp4'' addr = Inl err \<longrightarrow> Listen_ln os gm = Inl err))"
    (is "?explicit \<and> ?automatic \<and> ?plain")
proof -
  have tcp: "TCP4 os addr = net_Listen os ''tcp4'' addr"
    unfolding assms(1) by (rule TCP4_ParseHost)
  have A: "Listen_ln os gm = TLS os addr certFile keyFile"
    if "certFile \<noteq> []" "keyFile \<noteq> []"
    using that by (simp add: Listen_ln_def Let_def assms(1-3) [symmetric])
  have A1: "Listen_ln os gm = Inl (errParseTLS_Format [Str certFile, Str keyFile, ErrorOf err])
      \<and> Listen os gm = os_Exit (Fatal ''Cannot get SSL listener: %s''
            [ErrorOf (errParseTLS_Format [Str certFile, Str keyFile, ErrorOf err])])"
    if "certFile \<noteq> []" "keyFile \<noteq> []" "LoadX509KeyPair os certFile keyFile = Inl err" for err
    using A [OF that(1,2)] TLS_load_failure [OF that, of addr]
    by (simp add: Listen_def)
  have A2: "Listen_ln os gm = Inr (tls_NewListener ln (Certificates [cert] True))"
    if "certFile \<noteq> []" "keyFile \<noteq> []" "LoadX509KeyPair os certFile keyFile = Inr cert"
      "net_Listen os ''tcp4'' addr = Inr ln" for cert ln
    using A [OF that(1,2)] TLS_listen [OF assms(1) that] by simp
  have B: "Listen_ln os gm =
         (if Prod (config gm) then LETSENCRYPTPROD os addr else LETSENCRYPT os addr)"
    if "\<not> (certFile \<noteq> [] \<and> keyFile \<noteq> [])" "\<not> DisableLetsEncrypt (SSL (config gm))"
    using that by (auto simp: Listen_ln_def Let_def assms(1-3) [symmetric])
  have B1: "Listen_ln os gm
              = Inr (tls_NewListener ln (GetCertificate_autocert_AcceptTOS ''./certcache''))"
    if "\<not> (certFile \<noteq> [] \<and> keyFile \<noteq> [])" "\<not> DisableLetsEncrypt (SSL (config gm))"
      "Prod (config gm)" "net_Listen os ''tcp4'' acme = Inr ln" for ln
    using B [OF that(1,2)] that(3) LETSENCRYPTPROD_listen [OF assms(1) that(4) [unfolded assms(4)]]
    by simp
  have B2: "Listen_ln os gm
              = Inr (tls_NewListener ln (GetCertificate_letsencrypt ''./letsencrypt.cache''))"
    if "\<not> (certFile \<noteq> [] \<and> keyFile \<noteq> [])" "\<not> DisableLetsEncrypt (SSL (config gm))"
      "\<not> Prod (config gm)" "net_Listen os ''tcp4'' acme = Inr ln"
      "CacheFile os ''./letsencrypt.cache'' = None" for ln
    using B [OF that(1,2)] that(3)
      LETSENCRYPT_listen [OF assms(1) that(4) [unfolded assms(4)] that(5)]
    by simp
  have C: "Listen_ln os gm = (case net_Listen os ''tcp4'' addr of
              Inl err \<Rightarrow> Inl err | Inr ln \<Rightarrow> Inr (TCPListener ln))"
    if "\<not> (certFile \<noteq> [] \<and> keyFile \<noteq> [])" "DisableLetsEncrypt (SSL (config gm))"
    using that tcp by (auto simp: Listen_ln_def Let_def assms(1-3) [symmetric])
  have C1: "Listen_ln os gm = Inr (TCPListener ln)"
    if "\<not> (certFile \<noteq> [] \<and> keyFile \<noteq> [])" "DisableLetsEncrypt (SSL (config gm))"
      "net_Listen os ''tcp4'' addr = Inr ln" for ln
    using C [OF that(1,2)] that(3) by simp
  have C2: "Listen_ln os gm = Inl err"
    if "\<not> (certFile \<noteq> [] \<and> keyFile \<noteq> [])" "DisableLetsEncrypt (SSL (config gm))"
      "net_Listen os ''tcp4'' addr = Inl err" for err
    using C [OF that(1,2)] that(3) by simp
  have 1: ?explicit using A A1 A2 by blast
  have 2: ?automatic using B B1 B2 by blast
  have 3: ?plain using C1 C2 by blast
  from 1 2 3 show ?thesis by (intro conjI)
qed

lemma example_listen_addr:
  "ParseHost (Environ example_os) (Configuration.Addr (config (example_listen p c k d)))
     = ''0.0.0.0:8443''"
  by (simp add: example_os_def example_listen_def example_config_def ParseHost_def Getenv_def
      slice_from_def DefaultServerHostname_def)

lemma example_listen_fields:
  "CertFile (Default (SSL (config (example_listen p c k d)))) = c"
  "KeyFile (Default (SSL (config (example_listen p c k d)))) = k"
  "DisableLetsEncrypt (SSL (config (example_listen p c k d))) = d"
  "Prod (config (example_listen p c k d)) = p"
  by (simp_all add: example_listen_def)

lemma example_os_fields:
  "LoadX509KeyPair example_os ''cert.pem'' ''key.pem'' = Inr 1"
  "LoadX509KeyPair example_os ''missing.pem'' ''key.pem''
     = Inl (errors_New ''open: no such file or directory'')"
  "net_Listen example_os ''tcp4'' ''0.0.0.0:8443'' = Inr (''tcp4'', ''0.0.0.0:8443'')"
  "CacheFile example_os ''./letsencrypt.cache'' = None"
  by (simp_all add: example_os_def)

theorem Listen_ln_priority_witness:
  "Listen_ln example_os (example_listen False ''cert.pem'' ''key.pem'' False)
     = Inr (tls_NewListener (''tcp4'', ''0.0.0.0:8443'') (Certificates [1] True))
   \<and> Listen_ln example_os (example_listen True ''missing.pem'' ''key.pem'' True)
     = Inl (errParseTLS_Format [Str ''missing.pem'', Str ''key.pem'',
              ErrorOf (errors_New ''open: no such file or directory'')])
   \<and> Listen_ln example_os (example_listen True [] ''key.pem'' False)
     = Inr (tls_NewListener (''tcp4'', ''0.0.0.0:8443'')
              (GetCertificate_autocert_AcceptTOS ''./certcache''))
   \<and> Listen_ln example_os (example_listen False [] [] False)
     = Inr (tls_NewListener (''tcp4'', ''0.0.0.0:8443'')
              (GetCertificate_letsencrypt ''./letsencrypt.cache''))
   \<and> Listen_ln example_os (example_listen True [] [] True)
     = Inr (TCPListener (''tcp4'', ''0.0.0.0:8443''))"
proof -
  note f = example_listen_addr example_listen_fields example_os_fields
  have 1: "Listen_ln example_os (example_listen False ''cert.pem'' ''key.pem'' False)
     = Inr (tls_NewListener (''tcp4'', ''0.0.0.0:8443'') (Certificates [1] True))"
    using Listen_ln_priority [OF refl refl refl refl, where os = example_os
        and gm = "example_listen False ''cert.pem'' ''key.pem'' False"]
    by (auto simp: f)
  have 2: "Listen_ln example_os (example_listen True ''missing.pem'' ''key.pem'' True)
     = Inl (errParseTLS_Format [Str ''missing.pem'', Str ''key.pem'',
              ErrorOf (errors_New ''open: no such file or directory'')])"
    using Listen_ln_priority [OF refl refl refl refl, where os = example_os
        and gm = "example_listen True ''missing.pem'' ''key.pem'' True"]
    by (auto simp: f)
  have 3: "Listen_ln example_os (example_listen True [] ''key.pem'' False)
     = Inr (tls_NewListener (''tcp4'', ''0.0.0.0:8443'')
              (GetCertificate_autocert_AcceptTOS ''./certcache''))"
    using Listen_ln_priority [OF refl refl refl refl, where os = example_os
        and gm = "example_listen True [] ''key.pem'' False"]
    by (auto simp: f)
  have 4: "Listen_ln example_os (example_listen False [] [] False)
     = Inr (tls_NewListener (''tcp4'', ''0.0.0.0:8443'')
              (GetCertificate_letsencrypt ''./letsencrypt.cache''))"
    using Listen_ln_priority [OF refl refl refl refl, where os = example_os
        and gm = "example_listen False [] [] False"]
    by (auto simp: f)
  have 5: "Listen_ln example_os (example_listen True [] [] True)
     = Inr (TCPListener (''tcp4'', ''0.0.0.0:8443''))"
    using Listen_ln_priority [OF refl refl refl refl, where os = example_os
        and gm = "example_listen True [] [] True"]
    by (auto simp: f)
  from 1 2 3 4 5 show ?thesis by (intro conjI)
qed


section \<open>Properties of the redirect server\<close>

lemma realSSLPort_of_port:
  assumes "Configuration.Addr cfg = '':'' @ port" and "port \<noteq> ''443''"
  shows "realSSLPort cfg = port"
  using assms by (simp add: realSSLPort_def slice_from_def)

lemma realSSLPort_of_443:
  assumes "Configuration.Addr cfg = '':443''"
  shows "realSSLPort cfg = []"
  using assms by (simp add: realSSLPort_def slice_from_def)

lemma redirect_handler_target:
  assumes "CHR '':'' \<notin> set h" and "Request.Host r = h @ '':'' @ p"
  shows "redirect_handler port r
     = http_Redirect r (''https://'' @ h @ port @ RequestURI r) 301"
proof -
  have "realHost r = h"
    using assms IndexByte_append [of "CHR '':''" h p]
    by (simp add: realHost_def slice_to_def Let_def)
  then show ?thesis
    by (simp add: redirect_handler_def StatusMovedPermanently_def)
qed

text \<open>
  Claim C2 at its own example. With the primary address \<open>:8443\<close> the port kept for the
  redirect is \<open>8443\<close>, without the colon, and the handler puts it straight after the host:
  the request \<open>/path?x=1\<close> for \<open>example.com:8443\<close> is redirected with status 301 to
  \<open>https://example.com8443/path?x=1\<close>.
\<close>

theorem redirect_port_without_colon:
  "realSSLPort example_config = ''8443''
   \<and> realHost (example_request ''example.com:8443'') = ''example.com''
   \<and> redirect_handler (realSSLPort example_config) (example_request ''example.com:8443'')
     = http_Redirect (example_request ''example.com:8443'')
         ''https://example.com8443/path?x=1'' 301
   \<and> ''https://example.com8443/path?x=1'' \<noteq> ''https://example.com:8443/path?x=1''"
  by (simp add: realSSLPort_def realHost_def redirect_handler_def example_config_def
      example_request_def slice_from_def slice_to_def StatusMovedPermanently_def)

end
